theory Spec2Isabelle
  imports Main "HOL-Library.List_Lexorder"
begin

section \<open>Python strings, slices and \<open>str.rfind\<close>\<close>

text \<open>
  A Python \<open>str\<close> is a sequence of Unicode code points and \<open>len\<close> counts code points,
  so a string is modelled as the list of its code points. \<open>py\<close> turns an ASCII literal
  into such a list. With \<open>HOL-Library.List_Lexorder\<close> the order on \<open>pystr\<close> is the
  lexicographic order by code point, which is how Python compares strings.
\<close>

type_synonym pystr = "nat list"

definition py :: "string \<Rightarrow> pystr" where
  "py cs = map of_char cs"

text \<open>
  Python clips the bounds of a slice: a negative bound counts from the end, and the
  result is clipped to \<open>0 .. len\<close>.
\<close>

definition slice_index :: "int \<Rightarrow> nat \<Rightarrow> nat" where
  "slice_index i n = (if i < 0 then nat (max (i + int n) 0) else min (nat i) n)"

text \<open>\<open>xs[a:b]\<close>\<close>

definition py_slice :: "'a list \<Rightarrow> int \<Rightarrow> int \<Rightarrow> 'a list" where
  "py_slice xs a b =
     (let i = slice_index a (length xs); j = slice_index b (length xs)
      in take (j - i) (drop i xs))"

text \<open>
  \<open>s.rfind(sub, start, end)\<close> for a non-empty \<open>sub\<close>: the highest index \<open>k\<close> with
  \<open>s[k : k + len(sub)] == sub\<close> and the whole match inside \<open>s[start:end]\<close>, or \<open>-1\<close>
  when there is none.
\<close>

definition rfind :: "'a list \<Rightarrow> 'a list \<Rightarrow> int \<Rightarrow> int \<Rightarrow> int" where
  "rfind s sub start end =
     (let i = slice_index start (length s); j = slice_index end (length s)
      in case find (\<lambda>k. take (length sub) (drop k s) = sub)
                (rev [i ..< Suc j - length sub]) of
           None \<Rightarrow> - 1
         | Some k \<Rightarrow> int k)"

text \<open>\<open>sub in s\<close> on strings: \<open>sub\<close> occurs in \<open>s\<close> as a contiguous run.\<close>

definition str_contains :: "'a list \<Rightarrow> 'a list \<Rightarrow> bool" where
  "str_contains sub s =
     list_ex (\<lambda>k. take (length sub) (drop k s) = sub) [0 ..< Suc (length s) - length sub]"

section \<open>\<open>app/core/utils.py\<close>: \<open>chunk_text\<close>\<close>

text \<open>
  The body of one iteration of the \<open>while\<close> loop of \<open>chunk_text\<close>, up to the final value
  of \<open>end_pos\<close>: the candidate \<open>min(current_pos + chunk_size, len(text))\<close>, moved back to
  just after the last paragraph break (\<open>"\n\n"\<close>, code point 10 twice), else the last
  sentence end (\<open>". "\<close>, code points 46 and 32), else the last space (code point 32),
  each only when found strictly after \<open>current_pos\<close>.
\<close>

definition chunk_end_pos :: "pystr \<Rightarrow> int \<Rightarrow> int \<Rightarrow> int" where
  "chunk_end_pos text chunk_size current_pos =
     (let end_pos = min (current_pos + chunk_size) (int (length text))
      in if end_pos < int (length text) then
           let paragraph_end = rfind text [10, 10] current_pos end_pos
           in if paragraph_end > current_pos then paragraph_end + 2
              else
                let sentence_end = rfind text [46, 32] current_pos end_pos
                in if sentence_end > current_pos then sentence_end + 2
                   else
                     let space_end = rfind text [32] current_pos end_pos
                     in if space_end > current_pos then space_end + 1 else end_pos
         else end_pos)"

text \<open>
  The \<open>while current_pos < len(text)\<close> loop. Nothing in the source bounds the number of
  iterations, so the loop is a partial function: \<open>None\<close> is "does not return" (which is
  what happens for \<open>chunk_size \<le> 0\<close> on a non-empty text).
\<close>

partial_function (option) chunk_loop ::
  "pystr \<Rightarrow> int \<Rightarrow> int \<Rightarrow> pystr list \<Rightarrow> pystr list option" where
  "chunk_loop text chunk_size current_pos chunks =
     (if current_pos < int (length text) then
        chunk_loop text chunk_size (chunk_end_pos text chunk_size current_pos)
          (chunks @ [py_slice text current_pos (chunk_end_pos text chunk_size current_pos)])
      else Some chunks)"

declare chunk_loop.simps [code]

definition chunk_text :: "pystr \<Rightarrow> int \<Rightarrow> pystr list option" where
  "chunk_text text chunk_size =
     (if int (length text) \<le> chunk_size then Some [text]
      else chunk_loop text chunk_size 0 [])"

section \<open>\<open>app/core/security.py\<close>: \<open>content_security_check\<close>\<close>

text \<open>
  The set literal \<open>PROHIBITED_CONTENT\<close>, in the order it is written (code point 243 is
  o-acute, 237 is i-acute).
\<close>

definition PROHIBITED_CONTENT :: "pystr list" where
  "PROHIBITED_CONTENT =
     [py ''violencia'', py ''discriminaci'' @ [243] @ py ''n'', py ''odio'',
      py ''obscenidad'', py ''drogas'', py ''suicidio'', py ''abuso'', py ''sexual'',
      py ''terrorismo'', py ''extremismo'', py ''pornograf'' @ [237] @ py ''a'',
      py ''blasfemia'']"

text \<open>
  \<open>content_security_check(text)\<close>. Two things the function takes from Python are
  arguments of the model: \<open>lower\<close> is \<open>str.lower\<close>, and \<open>words\<close> is the order in which
  \<open>for word in PROHIBITED_CONTENT\<close> visits the set (a \<open>set\<close> of strings has no fixed
  iteration order). The loop returns at the first word found in the lowercased text;
  the two length checks come after the loop, as in the source. Code point 233 is
  e-acute.
\<close>

definition content_security_check ::
  "(pystr \<Rightarrow> pystr) \<Rightarrow> pystr list \<Rightarrow> pystr \<Rightarrow> bool \<times> pystr" where
  "content_security_check lower words text =
     (let text_lower = lower text
      in case find (\<lambda>word. str_contains word text_lower) words of
           Some word \<Rightarrow>
             (False, py ''El contenido contiene t'' @ [233] @ py ''rminos inapropiados: '' @ word)
         | None \<Rightarrow>
             if length text < 10 then (False, py ''El contenido es demasiado corto'')
             else if length text > 100000
               then (False, py ''El contenido es demasiado largo para procesar'')
             else (True, []))"

text \<open>\<open>str.lower\<close> on a text whose cased letters are all ASCII.\<close>

definition lower_ascii :: "pystr \<Rightarrow> pystr" where
  "lower_ascii s = map (\<lambda>c. if 65 \<le> c \<and> c \<le> 90 then c + 32 else c) s"

section \<open>Exceptions\<close>

text \<open>
  A raised exception is a value: FastAPI's \<open>HTTPException(status_code, detail)\<close>, or any
  other exception, given by its class name and its message \<open>str(e)\<close>. A computation
  that may raise returns \<open>exn + 'a\<close>, with \<open>Inl\<close> for the exception.
\<close>

datatype exn = HTTPException nat pystr | PyError pystr pystr

section \<open>\<open>app/core/cache.py\<close>: \<open>generate_cache_key\<close> and \<open>cache_result\<close>\<close>

text \<open>
  What \<open>cache.py\<close> takes from outside the repository, as fields of one record:
  the configuration flag \<open>REDIS_ENABLED\<close>; \<open>str(args)\<close> on the tuple of positional
  arguments; the JSON encoder on a dictionary key (\<open>json_string\<close>) and on an argument
  value (\<open>json_dumps_arg\<close>, which raises on a value that is not serialisable);
  \<open>hashlib.md5(s.encode()).hexdigest()\<close>; the Redis commands \<open>get\<close> (with
  \<open>decode_responses=True\<close>: a string, or \<open>None\<close> for a missing key) and \<open>setex\<close> on a
  store state \<open>'st\<close>, either of which may raise (connection refused, socket timeout);
  and \<open>json.loads\<close> and \<open>json.dumps\<close> on results. \<open>'v\<close> is the type of argument values and
  \<open>'r\<close> the type of results of the wrapped function.
\<close>

record ('v, 'r, 'st) cache_env =
  REDIS_ENABLED :: bool
  str_args :: "'v list \<Rightarrow> pystr"
  json_string :: "pystr \<Rightarrow> pystr"
  json_dumps_arg :: "'v \<Rightarrow> exn + pystr"
  md5_hexdigest :: "pystr \<Rightarrow> pystr"
  redis_get :: "'st \<Rightarrow> pystr \<Rightarrow> exn + pystr option"
  redis_setex :: "'st \<Rightarrow> pystr \<Rightarrow> int \<Rightarrow> pystr \<Rightarrow> exn option \<times> 'st"
  json_loads :: "pystr \<Rightarrow> exn + 'r"
  json_dumps :: "'r \<Rightarrow> exn + pystr"

text \<open>\<open>sep.join(parts)\<close>\<close>

fun str_join :: "pystr \<Rightarrow> pystr list \<Rightarrow> pystr" where
  "str_join sep [] = []"
| "str_join sep [x] = x"
| "str_join sep (x # y # ys) = x @ sep @ str_join sep (y # ys)"

text \<open>
  \<open>json.dumps(kwargs, sort_keys=True)\<close> on the dictionary of keyword arguments, a list
  of (name, value) pairs in the order the caller supplied them (a \<open>dict\<close> keeps
  insertion order and has no repeated key). The encoder sorts the items by key and
  writes \<open>{"k1": v1, "k2": v2}\<close>; it raises when a value cannot be encoded.
\<close>

fun json_items ::
  "(pystr \<Rightarrow> pystr) \<Rightarrow> ('v \<Rightarrow> exn + pystr) \<Rightarrow> (pystr \<times> 'v) list \<Rightarrow> exn + pystr list" where
  "json_items js jv [] = Inr []"
| "json_items js jv ((k, v) # kvs) =
     (case jv v of
        Inl e \<Rightarrow> Inl e
      | Inr s \<Rightarrow>
          (case json_items js jv kvs of
             Inl e \<Rightarrow> Inl e
           | Inr ss \<Rightarrow> Inr ((js k @ py '': '' @ s) # ss)))"

definition json_dumps_sort_keys ::
  "('v, 'r, 'st) cache_env \<Rightarrow> (pystr \<times> 'v) list \<Rightarrow> exn + pystr" where
  "json_dumps_sort_keys env kwargs =
     (case json_items (json_string env) (json_dumps_arg env) (sort_key fst kwargs) of
        Inl e \<Rightarrow> Inl e
      | Inr ss \<Rightarrow> Inr (py ''{'' @ str_join (py '', '') ss @ py ''}''))"

definition generate_cache_key ::
  "('v, 'r, 'st) cache_env \<Rightarrow> pystr \<Rightarrow> 'v list \<Rightarrow> (pystr \<times> 'v) list \<Rightarrow> exn + pystr" where
  "generate_cache_key env prefix args kwargs =
     (let args_str = str_args env args
      in case json_dumps_sort_keys env kwargs of
           Inl e \<Rightarrow> Inl e
         | Inr kwargs_str \<Rightarrow>
             Inr (md5_hexdigest env (prefix @ py '':'' @ args_str @ py '':'' @ kwargs_str)))"

text \<open>
  \<open>get_redis_connection()\<close>: \<open>None\<close> when Redis is disabled, else the singleton client
  (created on first use; creating it does not connect).
\<close>

definition get_redis_connection :: "('v, 'r, 'st) cache_env \<Rightarrow> unit option" where
  "get_redis_connection env = (if \<not> REDIS_ENABLED env then None else Some ())"

text \<open>
  What one call of the wrapper does: the value it returns or the exception it raises,
  the store afterwards, how many times it invoked the wrapped function, and the
  exceptions it reported with \<open>print\<close>.
\<close>

record ('r, 'st) outcome =
  returned :: "exn + 'r"
  store_after :: 'st
  invocations :: nat
  printed :: "exn list"

text \<open>
  The \<open>wrapper\<close> that \<open>cache_result(prefix, ttl)\<close> puts around \<open>func\<close>, called with
  \<open>args\<close> and \<open>kwargs\<close> on the store \<open>st\<close>. \<open>func args kwargs\<close> is the result of
  \<open>await func(*args, **kwargs)\<close>. Only \<open>json.loads\<close> and the \<open>setex\<close> statement (with the
  \<open>json.dumps\<close> in its argument) stand inside a \<open>try\<close>; the key derivation, \<open>get\<close> and
  \<open>func\<close> do not. \<open>if cached_result:\<close> is false for \<open>None\<close> and for the empty string.
\<close>

definition cache_result ::
  "('v, 'r, 'st) cache_env \<Rightarrow> pystr \<Rightarrow> int \<Rightarrow> ('v list \<Rightarrow> (pystr \<times> 'v) list \<Rightarrow> exn + 'r)
     \<Rightarrow> 'v list \<Rightarrow> (pystr \<times> 'v) list \<Rightarrow> 'st \<Rightarrow> ('r, 'st) outcome" where
  "cache_result env prefix ttl func args kwargs st =
     (let direct = \<lparr>returned = func args kwargs, store_after = st, invocations = 1, printed = []\<rparr>
      in if \<not> REDIS_ENABLED env then direct
         else case get_redis_connection env of
           None \<Rightarrow> direct
         | Some redis_client \<Rightarrow>
             (case generate_cache_key env prefix args kwargs of
                Inl e \<Rightarrow> \<lparr>returned = Inl e, store_after = st, invocations = 0, printed = []\<rparr>
              | Inr cache_key \<Rightarrow>
                  (case redis_get env st cache_key of
                     Inl e \<Rightarrow> \<lparr>returned = Inl e, store_after = st, invocations = 0, printed = []\<rparr>
                   | Inr cached_result \<Rightarrow>
                       (case (case cached_result of
                                None \<Rightarrow> None
                              | Some s \<Rightarrow>
                                  if s = [] then None
                                  else (case json_loads env s of Inl e \<Rightarrow> None | Inr v \<Rightarrow> Some v)) of
                          Some v \<Rightarrow>
                            \<lparr>returned = Inr v, store_after = st, invocations = 0, printed = []\<rparr>
                        | None \<Rightarrow>
                            (case func args kwargs of
                               Inl e \<Rightarrow>
                                 \<lparr>returned = Inl e, store_after = st, invocations = 1, printed = []\<rparr>
                             | Inr result \<Rightarrow>
                                 (case json_dumps env result of
                                    Inl e \<Rightarrow>
                                      \<lparr>returned = Inr result, store_after = st, invocations = 1,
                                       printed = [e]\<rparr>
                                  | Inr s \<Rightarrow>
                                      (case redis_setex env st cache_key ttl s of
                                         (Some e, st') \<Rightarrow>
                                           \<lparr>returned = Inr result, store_after = st',
                                            invocations = 1, printed = [e]\<rparr>
                                       | (None, st') \<Rightarrow>
                                           \<lparr>returned = Inr result, store_after = st',
                                            invocations = 1, printed = []\<rparr>)))))))"

section \<open>An executable environment for \<open>cache.py\<close>\<close>

text \<open>
  To run the cache on concrete calls, the environment is instantiated with Python
  values of a small kind: \<open>None\<close>, booleans, integers, lists, tuples, and objects that the
  JSON encoder refuses (given by their \<open>repr\<close>).
\<close>

datatype pyval = PNone | PBool bool | PInt int | PList "pyval list" | PTuple "pyval list"
  | PObject pystr

fun digits :: "nat \<Rightarrow> pystr" where
  "digits n = (if n < 10 then [48 + n] else digits (n div 10) @ [48 + n mod 10])"

definition int_str :: "int \<Rightarrow> pystr" where
  "int_str i = (if i < 0 then py ''-'' @ digits (nat (- i)) else digits (nat i))"

text \<open>\<open>repr\<close> of a value; \<open>str(args)\<close> is the \<open>repr\<close> of the tuple \<open>args\<close>.\<close>

fun py_repr :: "pyval \<Rightarrow> pystr" where
  "py_repr PNone = py ''None''"
| "py_repr (PBool b) = (if b then py ''True'' else py ''False'')"
| "py_repr (PInt i) = int_str i"
| "py_repr (PList vs) = py ''['' @ str_join (py '', '') (map py_repr vs) @ py '']''"
| "py_repr (PTuple vs) =
     (if length vs = 1 then py ''('' @ str_join (py '', '') (map py_repr vs) @ py '',)''
      else py ''('' @ str_join (py '', '') (map py_repr vs) @ py '')'')"
| "py_repr (PObject r) = r"

fun first_error :: "(exn + 'a) list \<Rightarrow> exn + 'a list" where
  "first_error [] = Inr []"
| "first_error (Inl e # rs) = Inl e"
| "first_error (Inr x # rs) =
     (case first_error rs of Inl e \<Rightarrow> Inl e | Inr xs \<Rightarrow> Inr (x # xs))"

text \<open>
  \<open>json.dumps\<close> on these values: a tuple is written as a JSON array, exactly as a list
  is, and an object raises \<open>TypeError\<close>.
\<close>

fun json_encode :: "pyval \<Rightarrow> exn + pystr" where
  "json_encode PNone = Inr (py ''null'')"
| "json_encode (PBool b) = Inr (if b then py ''true'' else py ''false'')"
| "json_encode (PInt i) = Inr (int_str i)"
| "json_encode (PList vs) =
     (case first_error (map json_encode vs) of
        Inl e \<Rightarrow> Inl e
      | Inr ss \<Rightarrow> Inr (py ''['' @ str_join (py '', '') ss @ py '']''))"
| "json_encode (PTuple vs) =
     (case first_error (map json_encode vs) of
        Inl e \<Rightarrow> Inl e
      | Inr ss \<Rightarrow> Inr (py ''['' @ str_join (py '', '') ss @ py '']''))"
| "json_encode (PObject r) =
     Inl (PyError (py ''TypeError'') (py ''Object is not JSON serializable''))"

text \<open>
  \<open>json.loads\<close> on the JSON texts made of \<open>null\<close>, \<open>true\<close>, \<open>false\<close>, integers and arrays
  (a JSON array is read as a Python list). Texts with strings, objects or fractions
  are outside this fragment, and the reader answers them with an error. The recursion
  is bounded by the length of the text.
\<close>

definition skip_ws :: "pystr \<Rightarrow> pystr" where
  "skip_ws s = dropWhile (\<lambda>c. c = 32 \<or> c = 9 \<or> c = 10 \<or> c = 13) s"

definition is_digit :: "nat \<Rightarrow> bool" where
  "is_digit c = (48 \<le> c \<and> c \<le> 57)"

definition digits_value :: "pystr \<Rightarrow> nat" where
  "digits_value ds = foldl (\<lambda>n c. 10 * n + (c - 48)) 0 ds"

definition parse_number :: "pystr \<Rightarrow> (pyval \<times> pystr) option" where
  "parse_number s =
     (let neg = (take 1 s = py ''-'');
          body = (if neg then drop 1 s else s);
          ds = takeWhile is_digit body;
          rest = dropWhile is_digit body
      in if ds = [] \<or> (length ds > 1 \<and> hd ds = 48)
            \<or> take 1 rest = py ''.'' \<or> take 1 rest = py ''e'' \<or> take 1 rest = py ''E''
         then None
         else Some (PInt (if neg then - int (digits_value ds) else int (digits_value ds)), rest))"

fun parse_value :: "nat \<Rightarrow> pystr \<Rightarrow> (pyval \<times> pystr) option"
  and parse_elements :: "nat \<Rightarrow> pystr \<Rightarrow> (pyval list \<times> pystr) option" where
  "parse_value 0 s = None"
| "parse_value (Suc n) s =
     (let t = skip_ws s
      in if take 4 t = py ''null'' then Some (PNone, drop 4 t)
         else if take 4 t = py ''true'' then Some (PBool True, drop 4 t)
         else if take 5 t = py ''false'' then Some (PBool False, drop 5 t)
         else if take 1 t = py ''['' then
           (if take 1 (skip_ws (drop 1 t)) = py '']''
            then Some (PList [], drop 1 (skip_ws (drop 1 t)))
            else case parse_elements n (drop 1 t) of
                   None \<Rightarrow> None
                 | Some (vs, r) \<Rightarrow> Some (PList vs, r))
         else parse_number t)"
| "parse_elements 0 s = None"
| "parse_elements (Suc n) s =
     (case parse_value n s of
        None \<Rightarrow> None
      | Some (v, r) \<Rightarrow>
          (let t = skip_ws r
           in if take 1 t = py '','' then
                (case parse_elements n (drop 1 t) of
                   None \<Rightarrow> None
                 | Some (vs, r') \<Rightarrow> Some (v # vs, r'))
              else if take 1 t = py '']'' then Some ([v], drop 1 t)
              else None))"

definition json_decode :: "pystr \<Rightarrow> exn + pyval" where
  "json_decode s =
     (case parse_value (Suc (length s)) s of
        Some (v, r) \<Rightarrow>
          if skip_ws r = [] then Inr v
          else Inl (PyError (py ''JSONDecodeError'') (py ''Extra data''))
      | None \<Rightarrow> Inl (PyError (py ''JSONDecodeError'') (py ''Expecting value'')))"

text \<open>
  A store in memory: the entries \<open>(key, ttl, value)\<close>, newest first, at most one per
  key. \<open>get\<close> and \<open>setex\<close> on it never raise.
\<close>

type_synonym dict_store = "(pystr \<times> int \<times> pystr) list"

definition dict_get :: "dict_store \<Rightarrow> pystr \<Rightarrow> exn + pystr option" where
  "dict_get st k = Inr (map_option snd (map_of st k))"

definition dict_setex ::
  "dict_store \<Rightarrow> pystr \<Rightarrow> int \<Rightarrow> pystr \<Rightarrow> exn option \<times> dict_store" where
  "dict_setex st k ttl v = (None, (k, ttl, v) # filter (\<lambda>e. fst e \<noteq> k) st)"

text \<open>
  The environment with Redis enabled and reachable. A dictionary key is written
  between double quotes (code point 34; the keys used here need no escaping), and the
  key string itself stands for its MD5 digest.
\<close>

definition mem_env :: "(pyval, pyval, dict_store) cache_env" where
  "mem_env =
     \<lparr>REDIS_ENABLED = True,
      str_args = (\<lambda>args. py_repr (PTuple args)),
      json_string = (\<lambda>k. [34] @ k @ [34]),
      json_dumps_arg = json_encode,
      md5_hexdigest = (\<lambda>s. s),
      redis_get = dict_get,
      redis_setex = dict_setex,
      json_loads = json_decode,
      json_dumps = json_encode\<rparr>"

text \<open>
  The same environment with the Redis server unreachable: every command raises
  \<open>redis.exceptions.ConnectionError\<close>.
\<close>

definition ConnectionError :: exn where
  "ConnectionError = PyError (py ''ConnectionError'') (py ''Connection refused'')"

definition unreachable_env :: "(pyval, pyval, dict_store) cache_env" where
  "unreachable_env =
     mem_env\<lparr>redis_get := (\<lambda>st k. Inl ConnectionError),
             redis_setex := (\<lambda>st k ttl v. (Some ConnectionError, st))\<rparr>"

section \<open>\<open>app/services/nlp_service.py\<close>: \<open>NLPService.process_text\<close>\<close>

text \<open>
  The loop \<open>for i, chunk in enumerate(chunks)\<close> of \<open>process_text\<close>. \<open>nlp\<close> is the spaCy
  pipeline \<open>self.nlp\<close>, which may raise; \<open>combined_doc\<close> is \<open>None\<close> until the first chunk
  is processed and is never touched afterwards (the \<open>else\<close> branch is \<open>pass\<close>). \<open>calls\<close>
  records the texts \<open>nlp\<close> was invoked on, in order.
\<close>

fun process_chunks ::
  "(pystr \<Rightarrow> exn + 'doc) \<Rightarrow> nat \<Rightarrow> pystr list \<Rightarrow> 'doc option \<Rightarrow> pystr list
     \<Rightarrow> (exn + 'doc option) \<times> pystr list" where
  "process_chunks nlp i [] combined_doc calls = (Inr combined_doc, calls)"
| "process_chunks nlp i (chunk # rest) combined_doc calls =
     (case nlp chunk of
        Inl e \<Rightarrow> (Inl e, calls @ [chunk])
      | Inr doc \<Rightarrow>
          process_chunks nlp (Suc i) rest (if i = 0 then Some doc else combined_doc)
            (calls @ [chunk]))"

text \<open>
  \<open>process_text(text)\<close>: the document returned (or the exception raised) and the texts
  \<open>nlp\<close> was invoked on; \<open>None\<close> when \<open>chunk_text\<close> does not return. \<open>doc_truthy\<close> is the
  truth value of a spaCy \<open>Doc\<close> (it has at least one token), which
  \<open>combined_doc or self.nlp("")\<close> tests.
\<close>

definition process_text ::
  "(pystr \<Rightarrow> exn + 'doc) \<Rightarrow> ('doc \<Rightarrow> bool) \<Rightarrow> pystr \<Rightarrow> ((exn + 'doc) \<times> pystr list) option" where
  "process_text nlp doc_truthy text =
     (if length text > 100000 then
        (case chunk_text text 100000 of
           None \<Rightarrow> None
         | Some chunks \<Rightarrow>
             Some (case process_chunks nlp 0 chunks None [] of
                     (Inl e, calls) \<Rightarrow> (Inl e, calls)
                   | (Inr combined_doc, calls) \<Rightarrow>
                       (case combined_doc of
                          None \<Rightarrow> (nlp [], calls @ [[]])
                        | Some doc \<Rightarrow>
                            if doc_truthy doc then (Inr doc, calls)
                            else (nlp [], calls @ [[]]))))
      else Some (nlp text, [text]))"

section \<open>\<open>app/services/document_processor.py\<close>: \<open>DocumentProcessor.process_upload\<close>\<close>

text \<open>
  \<open>bytes\<close>, and \<open>content.decode('utf-8')\<close> in strict mode: \<open>None\<close> is \<open>UnicodeDecodeError\<close>.
  The decoder accepts the well-formed sequences of one to four bytes and rejects
  stray and missing continuation bytes, overlong forms, surrogates and code points
  above \<open>0x10FFFF\<close>.
\<close>

type_synonym bytes = "nat list"

definition is_cont :: "nat \<Rightarrow> bool" where
  "is_cont b = (128 \<le> b \<and> b \<le> 191)"

fun utf8_decode :: "bytes \<Rightarrow> pystr option" where
  "utf8_decode [] = Some []"
| "utf8_decode (b0 # bs) =
     (if b0 < 128 then map_option (\<lambda>cs. b0 # cs) (utf8_decode bs)
      else if 194 \<le> b0 \<and> b0 \<le> 223 then
        (case bs of
           b1 # r \<Rightarrow>
             if is_cont b1
             then map_option (\<lambda>cs. ((b0 - 192) * 64 + (b1 - 128)) # cs) (utf8_decode r)
             else None
         | _ \<Rightarrow> None)
      else if 224 \<le> b0 \<and> b0 \<le> 239 then
        (case bs of
           b1 # b2 # r \<Rightarrow>
             if is_cont b1 \<and> is_cont b2
                \<and> (if b0 = 224 then 160 \<le> b1 else True)
                \<and> (if b0 = 237 then b1 \<le> 159 else True)
             then map_option
                    (\<lambda>cs. ((b0 - 224) * 4096 + (b1 - 128) * 64 + (b2 - 128)) # cs)
                    (utf8_decode r)
             else None
         | _ \<Rightarrow> None)
      else if 240 \<le> b0 \<and> b0 \<le> 244 then
        (case bs of
           b1 # b2 # b3 # r \<Rightarrow>
             if is_cont b1 \<and> is_cont b2 \<and> is_cont b3
                \<and> (if b0 = 240 then 144 \<le> b1 else True)
                \<and> (if b0 = 244 then b1 \<le> 143 else True)
             then map_option
                    (\<lambda>cs. ((b0 - 240) * 262144 + (b1 - 128) * 4096 + (b2 - 128) * 64
                            + (b3 - 128)) # cs)
                    (utf8_decode r)
             else None
         | _ \<Rightarrow> None)
      else None)"

text \<open>
  \<open>os.path.splitext(p)[1]\<close> (POSIX): the part of \<open>p\<close> from the last dot on, when that dot
  comes after the last \<open>/\<close> and is not one of the leading dots of the file name;
  otherwise the empty string. Code point 47 is the slash, 46 the dot.
\<close>

definition splitext_ext :: "pystr \<Rightarrow> pystr" where
  "splitext_ext p =
     (let sepIndex = rfind p [47] 0 (int (length p));
          dotIndex = rfind p [46] 0 (int (length p))
      in if dotIndex > sepIndex
            \<and> list_ex (\<lambda>i. p ! i \<noteq> 46) [nat (sepIndex + 1) ..< nat dotIndex]
         then drop (nat dotIndex) p
         else [])"

datatype DocumentType = PDF | TEXT | DOCX | MARKDOWN

text \<open>\<open>_get_document_type\<close>: \<open>extension_map.get(file_extension, DocumentType.TEXT)\<close>.\<close>

definition get_document_type :: "pystr \<Rightarrow> DocumentType" where
  "get_document_type file_extension =
     (if file_extension = py ''.pdf'' then PDF
      else if file_extension = py ''.txt'' then TEXT
      else if file_extension = py ''.docx'' then DOCX
      else if file_extension = py ''.md'' then MARKDOWN
      else TEXT)"

record UploadFile =
  filename :: pystr
  content :: bytes
  content_type :: pystr

record DocumentMetadata =
  meta_filename :: pystr
  file_size :: nat
  meta_content_type :: pystr
  page_count :: "nat option"
  has_images :: bool
  created_at :: "pystr option"
  language :: "pystr option"

record DocumentChunk =
  chunk_id :: pystr
  chunk_body :: pystr
  page_number :: "nat option"
  position :: nat

record ProcessedDocument =
  doc_id :: pystr
  doc_metadata :: DocumentMetadata
  doc_text :: pystr
  doc_chunks :: "DocumentChunk list"
  doc_entities :: "(pystr \<times> pystr list) list option"
  doc_keywords :: "pystr list option"

text \<open>\<open>_create_basic_metadata\<close>\<close>

definition create_basic_metadata :: "pystr \<Rightarrow> nat \<Rightarrow> pystr \<Rightarrow> DocumentMetadata" where
  "create_basic_metadata fname fsize ctype =
     \<lparr>meta_filename = fname, file_size = fsize, meta_content_type = ctype, page_count = None,
      has_images = False, created_at = None, language = None\<rparr>"

text \<open>
  The exceptions Python itself raises in \<open>process_upload\<close>; their message texts are not
  modelled.
\<close>

definition UnicodeDecodeError :: exn where
  "UnicodeDecodeError = PyError (py ''UnicodeDecodeError'') []"

definition UnboundLocalError :: exn where
  "UnboundLocalError = PyError (py ''UnboundLocalError'') []"

text \<open>
  \<open>process_upload(file, perform_ocr)\<close>. \<open>lower\<close> and \<open>words\<close> are as in
  \<open>content_security_check\<close>; \<open>process_pdf\<close> is \<open>self._process_pdf\<close>, which depends on PyPDF2.
  The three branches are those of the source: the \<open>TEXT\<close> branch decodes outside any
  \<open>try\<close>, so a decoding error propagates as it is; the \<open>else\<close> branch turns it into
  \<open>HTTPException(415)\<close>.

  After the safety check the function calls \<open>chunk_text(extracted_text, CHUNK_SIZE)\<close>.
  The same function body later binds \<open>chunk_text\<close> as the target of
  \<open>for i, chunk_text in enumerate(text_chunks)\<close>, which makes the name local to
  \<open>process_upload\<close>: the call reads an unbound local variable and raises
  \<open>UnboundLocalError\<close>. The statements after it are never reached.
\<close>

definition process_upload ::
  "(pystr \<Rightarrow> pystr) \<Rightarrow> pystr list \<Rightarrow> (bytes \<Rightarrow> bool \<Rightarrow> exn + pystr \<times> DocumentMetadata)
     \<Rightarrow> UploadFile \<Rightarrow> bool \<Rightarrow> exn + ProcessedDocument" where
  "process_upload lower words process_pdf file perform_ocr =
     (let file_ext = lower (splitext_ext (filename file));
          doc_type = get_document_type file_ext;
          extracted =
            (case doc_type of
               PDF \<Rightarrow> process_pdf (content file) perform_ocr
             | TEXT \<Rightarrow>
                 (case utf8_decode (content file) of
                    None \<Rightarrow> Inl UnicodeDecodeError
                  | Some extracted_text \<Rightarrow>
                      Inr (extracted_text,
                           create_basic_metadata (filename file) (length (content file))
                             (content_type file)))
             | _ \<Rightarrow>
                 (case utf8_decode (content file) of
                    None \<Rightarrow>
                      Inl (HTTPException 415 (py ''Formato de archivo no soportado o corrupto''))
                  | Some extracted_text \<Rightarrow>
                      Inr (extracted_text,
                           create_basic_metadata (filename file) (length (content file))
                             (content_type file))))
      in case extracted of
           Inl e \<Rightarrow> Inl e
         | Inr (extracted_text, meta) \<Rightarrow>
             if \<not> fst (content_security_check lower words extracted_text)
             then Inl (HTTPException 400
                        (py ''Contenido inapropiado: ''
                         @ snd (content_security_check lower words extracted_text)))
             else Inl UnboundLocalError)"

section \<open>\<open>app/api/endpoints/summary.py\<close>: \<open>create_visualization\<close> and \<open>create_summary\<close>\<close>

text \<open>
  \<open>AttributeError\<close> for a method a class does not define, with Python's message
  (code point 39 is the apostrophe).
\<close>

definition AttributeError :: "pystr \<Rightarrow> pystr \<Rightarrow> exn" where
  "AttributeError cls attr =
     PyError (py ''AttributeError'')
       ([39] @ cls @ [39] @ py '' object has no attribute '' @ [39] @ attr @ [39])"

text \<open>The truth value of an optional string: \<open>None\<close> and \<open>""\<close> are false.\<close>

definition truthy :: "pystr option \<Rightarrow> bool" where
  "truthy x = (case x of None \<Rightarrow> False | Some s \<Rightarrow> s \<noteq> [])"

text \<open>
  \<open>create_visualization(document_id, text, viz_type)\<close>. Both sources are optional query
  parameters of the signature (\<open>Optional[uuid.UUID] = Query(None)\<close> and
  \<open>Optional[str] = Query(None)\<close>); a UUID is given by its string, and as an object it is
  true whenever it is not \<open>None\<close>.

  With a document reference the handler calls \<open>doc_processor.get_document\<close>; the class
  \<open>DocumentProcessor\<close> of \<open>document_processor.py\<close> defines no such method, so the call
  raises \<open>AttributeError\<close>. The text is read only in the \<open>elif\<close> branch, and with neither
  source the handler raises \<open>HTTPException(400)\<close>. \<open>visualize\<close> stands for the rest of the
  body, which looks at the sources no more: \<open>viz_service.generate_visualization\<close> and the
  construction of the response, whose class \<open>VisualizationResponse\<close> is not among the
  sources. The \<open>try\<close> around the body re-raises an \<open>HTTPException\<close> and turns any other
  exception into \<open>HTTPException(500)\<close> (code point 243 is o-acute).
\<close>

definition create_visualization ::
  "(pystr \<Rightarrow> 'viz \<Rightarrow> exn + 'response) \<Rightarrow> pystr option \<Rightarrow> pystr option \<Rightarrow> 'viz
     \<Rightarrow> exn + 'response" where
  "create_visualization visualize document_id text viz_type =
     (case (case document_id of
              Some doc_ref \<Rightarrow> Inl (AttributeError (py ''DocumentProcessor'') (py ''get_document''))
            | None \<Rightarrow>
                (case text of
                   None \<Rightarrow>
                     Inl (HTTPException 400 (py ''Se debe proporcionar texto o document_id''))
                 | Some source_text \<Rightarrow>
                     if source_text = []
                     then Inl (HTTPException 400 (py ''Se debe proporcionar texto o document_id''))
                     else visualize source_text viz_type)) of
        Inl (HTTPException code detail) \<Rightarrow> Inl (HTTPException code detail)
      | Inl (PyError cls msg) \<Rightarrow>
          Inl (HTTPException 500
                (py ''Error al generar la visualizaci'' @ [243] @ py ''n: '' @ msg))
      | Inr response \<Rightarrow> Inr response)"

text \<open>
  What \<open>create_summary\<close> takes from outside the repository: the generation backend
  behind \<open>OpenAIService.generate_summary\<close>, which returns the summary or raises, and
  the text \<open>str(e)\<close> of the \<open>ValidationError\<close> that pydantic raises.
\<close>

record summary_env =
  generate_summary :: "pystr \<Rightarrow> pystr \<Rightarrow> exn + pystr"
  validation_error_text :: pystr

text \<open>
  Lines 46 to 64 of \<open>create_summary\<close>: the text to summarise, from the attributes
  \<open>request.document_id\<close> and \<open>request.text\<close>. The class of \<open>request\<close>,
  \<open>CreateSummaryRequest\<close>, is not among the sources, so the attributes the handler reads
  are arguments here; the handler tests each of the two for truth. As in
  \<open>create_visualization\<close>, the call of \<open>doc_processor.get_document\<close> raises
  \<open>AttributeError\<close>, and the raw text is read only in the \<open>else\<close> branch.
\<close>

definition summary_source :: "pystr option \<Rightarrow> pystr option \<Rightarrow> exn + pystr" where
  "summary_source document_id text =
     (if truthy document_id
      then Inl (AttributeError (py ''DocumentProcessor'') (py ''get_document''))
      else (case text of
              None \<Rightarrow> Inl (HTTPException 400 (py ''Se debe proporcionar texto o document_id''))
            | Some document_text \<Rightarrow>
                if document_text = []
                then Inl (HTTPException 400 (py ''Se debe proporcionar texto o document_id''))
                else Inr document_text))"

text \<open>
  The whole handler, with \<open>request.preprocess\<close>, \<open>request.length\<close> and
  \<open>request.include_keywords\<close> as further arguments. After the source of the text:
  \<open>nlp_service.preprocess_text\<close> and \<open>nlp_service.extract_keywords\<close> are not methods of the
  class \<open>NLPService\<close> of \<open>nlp_service.py\<close>, so either call raises \<open>AttributeError\<close>; and the
  final \<open>SummaryResponse(summary_id=..., document_id=..., text=..., length=...,
  keywords=..., created_at=...)\<close> gives none of the required fields \<open>summary\<close>,
  \<open>key_concepts\<close>, \<open>estimated_reading_time\<close>, \<open>original_text_length\<close> and
  \<open>compression_ratio\<close> of the class in \<open>shemas/summary.py\<close>, so pydantic raises
  \<open>ValidationError\<close>. The \<open>try\<close> around the body re-raises an \<open>HTTPException\<close> and turns
  any other exception into \<open>HTTPException(500)\<close>. No response object is ever built, so
  the type of responses is left open.
\<close>

definition create_summary ::
  "summary_env \<Rightarrow> pystr option \<Rightarrow> pystr option \<Rightarrow> bool \<Rightarrow> pystr \<Rightarrow> bool \<Rightarrow> exn + 'response" where
  "create_summary env document_id text preprocess len include_keywords =
     (case (case summary_source document_id text of
              Inl e \<Rightarrow> e
            | Inr document_text \<Rightarrow>
                if preprocess
                then AttributeError (py ''NLPService'') (py ''preprocess_text'')
                else (case generate_summary env document_text len of
                        Inl e \<Rightarrow> e
                      | Inr summary_text \<Rightarrow>
                          if include_keywords
                          then AttributeError (py ''NLPService'') (py ''extract_keywords'')
                          else PyError (py ''ValidationError'') (validation_error_text env))) of
        HTTPException code detail \<Rightarrow> Inl (HTTPException code detail)
      | PyError cls msg \<Rightarrow>
          Inl (HTTPException 500 (py ''Error al generar el resumen: '' @ msg)))"

section \<open>Properties of \<open>chunk_text\<close>\<close>

lemma slice_index_nonneg: "0 \<le> i \<Longrightarrow> slice_index i n = min (nat i) n"
  by (simp add: slice_index_def)

lemma rfind_upper:
  assumes "rfind s sub a b \<noteq> - 1" and "0 \<le> b"
  shows "rfind s sub a b + int (length sub) \<le> b"
proof -
  define i where "i = slice_index a (length s)"
  define j where "j = slice_index b (length s)"
  from assms(1) obtain k
    where k: "find (\<lambda>k. take (length sub) (drop k s) = sub) (rev [i ..< Suc j - length sub]) = Some k"
      and r: "rfind s sub a b = int k"
    by (auto simp: rfind_def i_def j_def Let_def split: option.splits)
  from k have "k \<in> set (rev [i ..< Suc j - length sub])"
    by (metis find_Some_iff nth_mem)
  then have "k + length sub \<le> j" by auto
  moreover have "int j \<le> b"
    using assms(2) by (simp add: j_def slice_index_nonneg)
  ultimately show ?thesis using r by simp
qed

lemma chunk_end_pos_advances:
  assumes "1 \<le> chunk_size" and "0 \<le> pos" and "pos < int (length text)"
  shows "pos < chunk_end_pos text chunk_size pos"
    and "chunk_end_pos text chunk_size pos \<le> pos + chunk_size"
    and "chunk_end_pos text chunk_size pos \<le> int (length text)"
proof -
  define e where "e = min (pos + chunk_size) (int (length text))"
  have e: "pos < e" "e \<le> pos + chunk_size" "e \<le> int (length text)" "0 \<le> e"
    using assms by (auto simp: e_def)
  have up: "r + int (length sub) \<le> e"
    if "r = rfind text sub pos e" and "r > pos" for r and sub :: pystr
  proof -
    from that assms(2) have "rfind text sub pos e \<noteq> - 1" by auto
    from rfind_upper [OF this e(4)] that(1) show ?thesis by simp
  qed
  have "pos < chunk_end_pos text chunk_size pos
      \<and> chunk_end_pos text chunk_size pos \<le> e"
    unfolding chunk_end_pos_def e_def [symmetric] Let_def
    using e up [of _ "[10, 10]"] up [of _ "[46, 32]"] up [of _ "[32]"]
    by (auto simp del: rfind_def)
  with e show "pos < chunk_end_pos text chunk_size pos"
    and "chunk_end_pos text chunk_size pos \<le> pos + chunk_size"
    and "chunk_end_pos text chunk_size pos \<le> int (length text)"
    by auto
qed

lemma py_slice_inside:
  assumes "0 \<le> a" and "a \<le> b" and "b \<le> int (length xs)"
  shows "py_slice xs a b = take (nat b - nat a) (drop (nat a) xs)"
proof -
  from assms have "0 \<le> b" by simp
  with assms have "slice_index a (length xs) = nat a" "slice_index b (length xs) = nat b"
    by (simp_all add: slice_index_nonneg)
  then show ?thesis by (simp add: py_slice_def Let_def)
qed

lemma chunk_loop_returns:
  assumes "1 \<le> chunk_size"
  shows "0 \<le> pos \<Longrightarrow> pos \<le> int (length text) \<Longrightarrow>
    \<exists>new. chunk_loop text chunk_size pos acc = Some (acc @ new)
      \<and> concat new = drop (nat pos) text
      \<and> list_all (\<lambda>c. int (length c) \<le> chunk_size) new
      \<and> (pos < int (length text) \<longrightarrow> new \<noteq> [])"
proof (induction "nat (int (length text) - pos)" arbitrary: pos acc rule: less_induct)
  case less
  show ?case
  proof (cases "pos < int (length text)")
    case False
    with less.prems have "pos = int (length text)" by simp
    then show ?thesis
      by (subst chunk_loop.simps) simp
  next
    case True
    define e where "e = chunk_end_pos text chunk_size pos"
    define c where "c = py_slice text pos e"
    have adv: "pos < e" "e \<le> pos + chunk_size" "e \<le> int (length text)"
      using chunk_end_pos_advances [OF assms less.prems(1) True] by (simp_all add: e_def)
    have c: "c = take (nat e - nat pos) (drop (nat pos) text)"
      unfolding c_def using less.prems(1) adv by (intro py_slice_inside) simp_all
    from adv less.prems have "nat (int (length text) - e) < nat (int (length text) - pos)"
      by simp
    from less.hyps [OF this, of "acc @ [c]"] adv less.prems(1)
    obtain new where new: "chunk_loop text chunk_size e (acc @ [c]) = Some ((acc @ [c]) @ new)"
      "concat new = drop (nat e) text"
      "list_all (\<lambda>c. int (length c) \<le> chunk_size) new"
      by auto
    have step: "chunk_loop text chunk_size pos acc = chunk_loop text chunk_size e (acc @ [c])"
      by (subst chunk_loop.simps) (simp add: True e_def c_def)
    have "nat e = nat pos + (nat e - nat pos)"
      using adv less.prems(1) by simp
    then have "drop (nat e) text = drop (nat e - nat pos) (drop (nat pos) text)"
      by (metis add.commute drop_drop)
    then have cat: "concat (c # new) = drop (nat pos) text"
      by (simp add: c new(2) del: drop_drop)
    have len: "int (length c) \<le> chunk_size"
      using adv less.prems(1) by (simp add: c)
    show ?thesis
      using step new(1) cat len new(3) by (intro exI [of _ "c # new"]) simp
  qed
qed

lemma chunk_text_returns:
  assumes "1 \<le> chunk_size"
  shows "\<exists>chunks. chunk_text text chunk_size = Some chunks
           \<and> concat chunks = text
           \<and> list_all (\<lambda>c. int (length c) \<le> chunk_size) chunks"
proof (cases "int (length text) \<le> chunk_size")
  case True
  then show ?thesis by (simp add: chunk_text_def)
next
  case False
  from chunk_loop_returns [OF assms, of 0 "text" "[]"]
  show ?thesis using False by (auto simp: chunk_text_def)
qed

text \<open>
  C1. For every text and every \<open>chunk_size \<ge> 1\<close>, \<open>chunk_text\<close> returns, and the
  concatenation of the chunks it returns, in order, is the text itself.
\<close>

theorem chunk_text_reconstructs:
  assumes "1 \<le> chunk_size"
  shows "\<exists>chunks. chunk_text text chunk_size = Some chunks \<and> concat chunks = text"
proof (cases "int (length text) \<le> chunk_size")
  case True
  then show ?thesis by (simp add: chunk_text_def)
next
  case False
  from chunk_loop_returns [OF assms, of 0 "text" "[]"]
  show ?thesis using False by (auto simp: chunk_text_def)
qed

theorem chunk_text_reconstructs_witness:
  "(1::int) \<le> 10
   \<and> chunk_text (py ''hello world. this is a test of it'') 10
       = Some [py ''hello '', py ''world. '', py ''this is a '', py ''test of it'']
   \<and> (\<exists>chunks. chunk_text (py ''hello world. this is a test of it'') 10 = Some chunks
         \<and> concat chunks = py ''hello world. this is a test of it'')"
proof -
  have h: "(1::int) \<le> 10" by simp
  have "chunk_text (py ''hello world. this is a test of it'') 10
       = Some [py ''hello '', py ''world. '', py ''this is a '', py ''test of it'']"
    by code_simp
  with h chunk_text_reconstructs [OF h, of "py ''hello world. this is a test of it''"]
  show ?thesis by simp
qed

text \<open>
  C2. For every text and every \<open>chunk_size \<ge> 1\<close>, every chunk \<open>chunk_text\<close> returns has
  at most \<open>chunk_size\<close> characters. The exception the sentence allows (a chunk longer
  than \<open>chunk_size\<close> for an unbroken token) never arises: a break found by \<open>rfind\<close> lies
  inside the candidate window and the fallback cuts exactly at the candidate, so the
  bound holds for every chunk.
\<close>

theorem chunk_text_bounded:
  assumes "1 \<le> chunk_size"
  shows "\<exists>chunks. chunk_text text chunk_size = Some chunks
           \<and> (\<forall>c \<in> set chunks. int (length c) \<le> chunk_size)"
proof (cases "int (length text) \<le> chunk_size")
  case True
  then show ?thesis by (simp add: chunk_text_def)
next
  case False
  from chunk_loop_returns [OF assms, of 0 "text" "[]"]
  show ?thesis using False by (auto simp: chunk_text_def list_all_iff)
qed

theorem chunk_text_bounded_witness:
  "(1::int) \<le> 4
   \<and> chunk_text (py ''abcdefghij kl'') 4 = Some [py ''abcd'', py ''efgh'', py ''ij '', py ''kl'']
   \<and> (\<exists>chunks. chunk_text (py ''abcdefghij kl'') 4 = Some chunks
         \<and> list_all (\<lambda>c. int (length c) \<le> 4) chunks)"
proof -
  have h: "(1::int) \<le> 4" by simp
  have "chunk_text (py ''abcdefghij kl'') 4
      = Some [py ''abcd'', py ''efgh'', py ''ij '', py ''kl'']"
    by code_simp
  with h chunk_text_bounded [OF h, of "py ''abcdefghij kl''"]
  show ?thesis by (simp add: list_all_iff)
qed

text \<open>
  C3. For every text and every \<open>chunk_size \<ge> 1\<close>, \<open>chunk_text\<close> terminates: it returns a
  list of chunks whose lengths add up to the length of the text (the whole text is
  consumed), the list is not empty when the text is not, and in every iteration of the
  loop (a position \<open>pos\<close> with \<open>0 \<le> pos < len(text)\<close>) the next position is strictly
  greater than \<open>pos\<close> and at most \<open>len(text)\<close>.
\<close>

theorem chunk_text_terminates:
  assumes "1 \<le> chunk_size"
  shows "(\<exists>chunks. chunk_text text chunk_size = Some chunks
            \<and> length (concat chunks) = length text
            \<and> (text \<noteq> [] \<longrightarrow> chunks \<noteq> []))
         \<and> (\<forall>pos. 0 \<le> pos \<and> pos < int (length text) \<longrightarrow>
               pos < chunk_end_pos text chunk_size pos
               \<and> chunk_end_pos text chunk_size pos \<le> int (length text))"
proof (intro conjI allI impI)
  show "\<exists>chunks. chunk_text text chunk_size = Some chunks
            \<and> length (concat chunks) = length text
            \<and> (text \<noteq> [] \<longrightarrow> chunks \<noteq> [])"
  proof (cases "int (length text) \<le> chunk_size")
    case True
    then show ?thesis by (simp add: chunk_text_def)
  next
    case False
    with assms have "text \<noteq> []" by auto
    with chunk_loop_returns [OF assms, of 0 "text" "[]"]
    show ?thesis using False by (auto simp: chunk_text_def)
  qed
next
  fix pos
  assume "0 \<le> pos \<and> pos < int (length text)"
  then show "pos < chunk_end_pos text chunk_size pos"
    and "chunk_end_pos text chunk_size pos \<le> int (length text)"
    using chunk_end_pos_advances [OF assms, of pos "text"] by simp_all
qed

theorem chunk_text_terminates_witness:
  "(1::int) \<le> 4
   \<and> chunk_text (py ''one. two three'') 4 = Some [py ''one.'', py '' two'', py '' thr'', py ''ee'']
   \<and> (0::int) < chunk_end_pos (py ''one. two three'') 4 0
   \<and> chunk_end_pos (py ''one. two three'') 4 4 = 8
   \<and> (\<exists>chunks. chunk_text (py ''one. two three'') 4 = Some chunks
         \<and> length (concat chunks) = 14 \<and> chunks \<noteq> [])"
proof -
  have h: "(1::int) \<le> 4" by simp
  have 1: "chunk_text (py ''one. two three'') 4
      = Some [py ''one.'', py '' two'', py '' thr'', py ''ee'']"
    by code_simp
  have 2: "chunk_end_pos (py ''one. two three'') 4 4 = 8"
    by code_simp
  have 3: "length (py ''one. two three'') = 14" "py ''one. two three'' \<noteq> []"
    by (simp_all add: py_def)
  from chunk_text_terminates [OF h, of "py ''one. two three''"] h 1 2 3
  show ?thesis by simp
qed

section \<open>Properties of \<open>content_security_check\<close>\<close>

text \<open>
  C5, as stated, fails: the prohibited-term loop runs before the length check, so a
  text of exactly 9 characters that contains a prohibited term (here the term
  \<open>violencia\<close> itself) is rejected with the reason naming the term, not with the
  "too short" reason.
\<close>

theorem content_security_check_short_counterexample:
  "length (py ''violencia'') = 9
   \<and> content_security_check lower_ascii PROHIBITED_CONTENT (py ''violencia'')
       = (False, py ''El contenido contiene t'' @ [233] @ py ''rminos inapropiados: violencia'')
   \<and> snd (content_security_check lower_ascii PROHIBITED_CONTENT (py ''violencia''))
       \<noteq> py ''El contenido es demasiado corto''"
  by code_simp

text \<open>
  C5, amended. For every text with fewer than 10 characters \<open>content_security_check\<close>
  returns not-safe. The reason is the "too short" message when no prohibited term
  occurs in the lowercased text; otherwise the reason names a prohibited term that
  occurs in it.
\<close>

theorem content_security_check_short:
  assumes "length text < 10"
  shows "fst (content_security_check lower words text) = False
   \<and> ((\<forall>w \<in> set words. \<not> str_contains w (lower text)) \<longrightarrow>
        snd (content_security_check lower words text) = py ''El contenido es demasiado corto'')
   \<and> ((\<exists>w \<in> set words. str_contains w (lower text)) \<longrightarrow>
        (\<exists>w \<in> set words. str_contains w (lower text)
           \<and> snd (content_security_check lower words text)
               = py ''El contenido contiene t'' @ [233] @ py ''rminos inapropiados: '' @ w))"
proof (cases "find (\<lambda>word. str_contains word (lower text)) words")
  case None
  then have "\<forall>w \<in> set words. \<not> str_contains w (lower text)"
    by (simp add: find_None_iff)
  with None assms show ?thesis
    by (simp add: content_security_check_def)
next
  case (Some w)
  then have "w \<in> set words" "str_contains w (lower text)"
    by (auto simp: find_Some_iff)
  with Some show ?thesis
    by (auto simp: content_security_check_def)
qed

theorem content_security_check_short_witness:
  "length (py ''Hola'') < 10
   \<and> list_all (\<lambda>w. \<not> str_contains w (lower_ascii (py ''Hola''))) PROHIBITED_CONTENT
   \<and> content_security_check lower_ascii PROHIBITED_CONTENT (py ''Hola'')
       = (False, py ''El contenido es demasiado corto'')"
proof -
  have h: "length (py ''Hola'') < 10" by (simp add: py_def)
  have n: "list_all (\<lambda>w. \<not> str_contains w (lower_ascii (py ''Hola''))) PROHIBITED_CONTENT"
    by code_simp
  from content_security_check_short [OF h, of lower_ascii PROHIBITED_CONTENT] n
  have "content_security_check lower_ascii PROHIBITED_CONTENT (py ''Hola'')
       = (False, py ''El contenido es demasiado corto'')"
    by (simp add: list_all_iff prod_eq_iff)
  with h n show ?thesis by simp
qed

section \<open>Properties of the cache\<close>

lemma sort_key_fst_unique:
  assumes "distinct (map fst xs)" and "distinct (map fst ys)" and "map_of xs = map_of ys"
  shows "sort_key fst xs = sort_key fst (ys :: (pystr \<times> 'v) list)"
proof -
  from assms have s: "set xs = set ys"
    by (simp add: map_of_inject_set)
  have inj: "inj_on fst (set xs)"
    using assms(1) by (simp add: distinct_map)
  show ?thesis
  proof (rule map_sorted_distinct_set_unique [where f = fst])
    show "inj_on fst (set (sort_key fst xs) \<union> set (sort_key fst ys))"
      using inj s by simp
    show "sorted (map fst (sort_key fst xs))" by simp
    show "sorted (map fst (sort_key fst ys))" by simp
    show "distinct (map fst (sort_key fst xs))"
      using assms(1) by (simp add: distinct_map inj_on_def)
    show "distinct (map fst (sort_key fst ys))"
      using assms(2) by (simp add: distinct_map inj_on_def)
    show "set (sort_key fst xs) = set (sort_key fst ys)"
      using s by simp
  qed
qed

lemma generate_cache_key_order:
  assumes "distinct (map fst kwargs1)" and "distinct (map fst kwargs2)"
    and "map_of kwargs1 = map_of kwargs2"
  shows "generate_cache_key env prefix args kwargs1 = generate_cache_key env prefix args kwargs2"
  using sort_key_fst_unique [OF assms]
  by (simp add: generate_cache_key_def json_dumps_sort_keys_def)

text \<open>A hit: the stored text is not empty and \<open>json.loads\<close> reads it.\<close>

lemma cache_result_hit:
  assumes "REDIS_ENABLED env"
    and "generate_cache_key env prefix args kwargs = Inr k"
    and "redis_get env st k = Inr (Some s)"
    and "s \<noteq> []"
    and "json_loads env s = Inr v"
  shows "cache_result env prefix ttl func args kwargs st
       = \<lparr>returned = Inr v, store_after = st, invocations = 0, printed = []\<rparr>"
  using assms by (simp add: cache_result_def get_redis_connection_def)

text \<open>
  A miss, an empty stored text and a stored text that \<open>json.loads\<close> rejects all take the
  same path: the function is invoked once, its exception propagates, its result is
  returned whatever \<open>json.dumps\<close> and \<open>setex\<close> do, and their exception is only printed.
\<close>

lemma cache_result_miss:
  assumes "REDIS_ENABLED env"
    and "generate_cache_key env prefix args kwargs = Inr k"
    and "redis_get env st k = Inr c"
    and "c = None \<or> c = Some [] \<or> (\<exists>s e. c = Some s \<and> json_loads env s = Inl e)"
  shows "cache_result env prefix ttl func args kwargs st
       = (case func args kwargs of
            Inl e \<Rightarrow> \<lparr>returned = Inl e, store_after = st, invocations = 1, printed = []\<rparr>
          | Inr result \<Rightarrow>
              (case json_dumps env result of
                 Inl e \<Rightarrow>
                   \<lparr>returned = Inr result, store_after = st, invocations = 1, printed = [e]\<rparr>
               | Inr s \<Rightarrow>
                   \<lparr>returned = Inr result, store_after = snd (redis_setex env st k ttl s),
                    invocations = 1,
                    printed = (case fst (redis_setex env st k ttl s) of
                                 None \<Rightarrow> [] | Some e \<Rightarrow> [e])\<rparr>))"
  using assms
  by (auto simp: cache_result_def get_redis_connection_def
           split: sum.splits option.splits prod.splits)

text \<open>
  C4. Two derivations of the cache key with the same prefix, the same positional
  arguments and keyword arguments that are the same mapping, supplied in any two
  orders, give the same key (or raise the same exception). So when the store holds a
  readable entry under the key of the first call, the wrapper called with the
  keyword arguments in the other order returns that entry and does not invoke the
  function: a cache hit.
\<close>

theorem cache_key_kwargs_order:
  assumes "distinct (map fst kwargs1)" and "distinct (map fst kwargs2)"
    and "map_of kwargs1 = map_of kwargs2"
  shows "generate_cache_key env prefix args kwargs1 = generate_cache_key env prefix args kwargs2
    \<and> (REDIS_ENABLED env \<and> generate_cache_key env prefix args kwargs1 = Inr k
        \<and> redis_get env st k = Inr (Some s) \<and> s \<noteq> [] \<and> json_loads env s = Inr v
        \<longrightarrow> cache_result env prefix ttl func args kwargs2 st
            = \<lparr>returned = Inr v, store_after = st, invocations = 0, printed = []\<rparr>)"
proof (intro conjI impI)
  show eq: "generate_cache_key env prefix args kwargs1
          = generate_cache_key env prefix args kwargs2"
    by (rule generate_cache_key_order [OF assms])
  assume "REDIS_ENABLED env \<and> generate_cache_key env prefix args kwargs1 = Inr k
        \<and> redis_get env st k = Inr (Some s) \<and> s \<noteq> [] \<and> json_loads env s = Inr v"
  with eq show "cache_result env prefix ttl func args kwargs2 st
            = \<lparr>returned = Inr v, store_after = st, invocations = 0, printed = []\<rparr>"
    by (intro cache_result_hit [where k = k and s = s]) simp_all
qed

text \<open>
  The witness: \<open>f(7, b=2, a=None)\<close> is computed and stored, then \<open>f(7, a=None, b=2)\<close> is
  answered from the store.
\<close>

theorem cache_key_kwargs_order_witness:
  "distinct (map fst [(py ''b'', PInt 2), (py ''a'', PNone)])
   \<and> distinct (map fst [(py ''a'', PNone), (py ''b'', PInt 2)])
   \<and> map_of [(py ''b'', PInt 2), (py ''a'', PNone)] = map_of [(py ''a'', PNone), (py ''b'', PInt 2)]
   \<and> generate_cache_key mem_env (py ''summary'') [PInt 7] [(py ''b'', PInt 2), (py ''a'', PNone)]
       = generate_cache_key mem_env (py ''summary'') [PInt 7] [(py ''a'', PNone), (py ''b'', PInt 2)]
   \<and> invocations (cache_result mem_env (py ''summary'') 86400 (\<lambda>args kwargs. Inr (PInt 5))
         [PInt 7] [(py ''b'', PInt 2), (py ''a'', PNone)] []) = 1
   \<and> cache_result mem_env (py ''summary'') 86400 (\<lambda>args kwargs. Inr (PInt 5))
         [PInt 7] [(py ''a'', PNone), (py ''b'', PInt 2)]
         (store_after (cache_result mem_env (py ''summary'') 86400 (\<lambda>args kwargs. Inr (PInt 5))
            [PInt 7] [(py ''b'', PInt 2), (py ''a'', PNone)] []))
       = \<lparr>returned = Inr (PInt 5),
          store_after = store_after (cache_result mem_env (py ''summary'') 86400
            (\<lambda>args kwargs. Inr (PInt 5)) [PInt 7] [(py ''b'', PInt 2), (py ''a'', PNone)] []),
          invocations = 0, printed = []\<rparr>"
proof -
  let ?kw1 = "[(py ''b'', PInt 2), (py ''a'', PNone)]"
  let ?kw2 = "[(py ''a'', PNone), (py ''b'', PInt 2)]"
  let ?f = "\<lambda>(args :: pyval list) (kwargs :: (pystr \<times> pyval) list). Inr (PInt 5) :: exn + pyval"
  let ?k = "py ''summary:(7,):{'' @ [34] @ py ''a'' @ [34] @ py '': null, ''
              @ [34] @ py ''b'' @ [34] @ py '': 2}''"
  let ?st = "[(?k, 86400, py ''5'')] :: dict_store"
  have d1: "distinct (map fst ?kw1)" and d2: "distinct (map fst ?kw2)"
    by (simp_all add: py_def)
  have m: "map_of ?kw1 = map_of ?kw2"
    by (auto simp: py_def fun_eq_iff)
  have first: "cache_result mem_env (py ''summary'') 86400 ?f [PInt 7] ?kw1 []
      = \<lparr>returned = Inr (PInt 5), store_after = ?st, invocations = 1, printed = []\<rparr>"
    by code_simp
  have key: "generate_cache_key mem_env (py ''summary'') [PInt 7] ?kw1 = Inr ?k"
    by code_simp
  have hyps: "REDIS_ENABLED mem_env" "redis_get mem_env ?st ?k = Inr (Some (py ''5''))"
    "py ''5'' \<noteq> []" "json_loads mem_env (py ''5'') = Inr (PInt 5)"
    by code_simp+
  from cache_key_kwargs_order [OF d1 d2 m, of mem_env "py ''summary''" "[PInt 7]" ?k ?st
      "py ''5''" "PInt 5" 86400 ?f] key hyps
  have "generate_cache_key mem_env (py ''summary'') [PInt 7] ?kw1
          = generate_cache_key mem_env (py ''summary'') [PInt 7] ?kw2"
    and "cache_result mem_env (py ''summary'') 86400 ?f [PInt 7] ?kw2 ?st
          = \<lparr>returned = Inr (PInt 5), store_after = ?st, invocations = 0, printed = []\<rparr>"
    by simp_all
  with d1 d2 m first show ?thesis by simp
qed

text \<open>
  C10. With the cache enabled and reachable: a first call that misses invokes the
  function, returns its result \<open>r\<close> and stores \<open>json.dumps(r)\<close>; a later call that finds
  this entry returns \<open>json.loads(json.dumps(r))\<close> and invokes nothing (whatever the
  function would do now). The hit therefore equals \<open>r\<close> only up to the JSON round trip.
\<close>

theorem cache_hit_json_round_trip:
  assumes "REDIS_ENABLED env"
    and "generate_cache_key env prefix args kwargs = Inr k"
    and "redis_get env st k = Inr None"
    and "func args kwargs = Inr r"
    and "json_dumps env r = Inr s"
    and "redis_setex env st k ttl s = (None, st')"
    and "redis_get env st' k = Inr (Some s)"
    and "s \<noteq> []"
    and "json_loads env s = Inr v"
  shows "cache_result env prefix ttl func args kwargs st
           = \<lparr>returned = Inr r, store_after = st', invocations = 1, printed = []\<rparr>
       \<and> cache_result env prefix ttl func' args kwargs st'
           = \<lparr>returned = json_loads env s, store_after = st', invocations = 0, printed = []\<rparr>"
proof
  show "cache_result env prefix ttl func args kwargs st
           = \<lparr>returned = Inr r, store_after = st', invocations = 1, printed = []\<rparr>"
    using assms by (subst cache_result_miss [where k = k and c = None]) simp_all
  show "cache_result env prefix ttl func' args kwargs st'
           = \<lparr>returned = json_loads env s, store_after = st', invocations = 0, printed = []\<rparr>"
    using assms by (subst cache_result_hit [where k = k and s = s and v = v]) simp_all
qed

text \<open>
  The witness: the function returns the tuple \<open>(1, 2)\<close>. The first call returns the
  tuple; the second call, a hit, returns the list \<open>[1, 2]\<close>, although the function
  would now raise.
\<close>

theorem cache_hit_json_round_trip_witness:
  "REDIS_ENABLED mem_env
   \<and> generate_cache_key mem_env (py ''quiz'') [PInt 7] [] = Inr (py ''quiz:(7,):{}'')
   \<and> redis_get mem_env [] (py ''quiz:(7,):{}'') = Inr None
   \<and> json_dumps mem_env (PTuple [PInt 1, PInt 2]) = Inr (py ''[1, 2]'')
   \<and> redis_setex mem_env [] (py ''quiz:(7,):{}'') 86400 (py ''[1, 2]'')
       = (None, [(py ''quiz:(7,):{}'', 86400, py ''[1, 2]'')])
   \<and> redis_get mem_env [(py ''quiz:(7,):{}'', 86400, py ''[1, 2]'')] (py ''quiz:(7,):{}'')
       = Inr (Some (py ''[1, 2]''))
   \<and> json_loads mem_env (py ''[1, 2]'') = Inr (PList [PInt 1, PInt 2])
   \<and> cache_result mem_env (py ''quiz'') 86400 (\<lambda>args kwargs. Inr (PTuple [PInt 1, PInt 2]))
         [PInt 7] [] []
       = \<lparr>returned = Inr (PTuple [PInt 1, PInt 2]),
          store_after = [(py ''quiz:(7,):{}'', 86400, py ''[1, 2]'')],
          invocations = 1, printed = []\<rparr>
   \<and> cache_result mem_env (py ''quiz'') 86400 (\<lambda>args kwargs. Inl (PyError (py ''RuntimeError'') []))
         [PInt 7] [] [(py ''quiz:(7,):{}'', 86400, py ''[1, 2]'')]
       = \<lparr>returned = Inr (PList [PInt 1, PInt 2]),
          store_after = [(py ''quiz:(7,):{}'', 86400, py ''[1, 2]'')],
          invocations = 0, printed = []\<rparr>
   \<and> PList [PInt 1, PInt 2] \<noteq> PTuple [PInt 1, PInt 2]"
proof -
  let ?k = "py ''quiz:(7,):{}''"
  let ?s = "py ''[1, 2]''"
  let ?st' = "[(?k, 86400, ?s)] :: dict_store"
  let ?f = "\<lambda>(args :: pyval list) (kwargs :: (pystr \<times> pyval) list).
              Inr (PTuple [PInt 1, PInt 2]) :: exn + pyval"
  have h1: "REDIS_ENABLED mem_env" by code_simp
  have h2: "generate_cache_key mem_env (py ''quiz'') [PInt 7] [] = Inr ?k" by code_simp
  have h3: "redis_get mem_env [] ?k = Inr None" by code_simp
  have h4: "?f [PInt 7] [] = Inr (PTuple [PInt 1, PInt 2])" by simp
  have h5: "json_dumps mem_env (PTuple [PInt 1, PInt 2]) = Inr ?s" by code_simp
  have h6: "redis_setex mem_env [] ?k 86400 ?s = (None, ?st')" by code_simp
  have h7: "redis_get mem_env ?st' ?k = Inr (Some ?s)" by code_simp
  have h8: "?s \<noteq> []" by code_simp
  have h9: "json_loads mem_env ?s = Inr (PList [PInt 1, PInt 2])" by code_simp
  from cache_hit_json_round_trip [OF h1 h2 h3 h4 h5 h6 h7 h8 h9,
      of "\<lambda>args kwargs. Inl (PyError (py ''RuntimeError'') [])"]
    h1 h2 h3 h5 h6 h7 h9
  show ?thesis by simp
qed

text \<open>
  The two guarded steps of the wrapper, as C8 describes them. A stored text that
  \<open>json.loads\<close> rejects is handled exactly as a missing key.
\<close>

lemma cache_result_undecodable_is_miss:
  assumes "REDIS_ENABLED env"
    and "generate_cache_key env prefix args kwargs = Inr k"
    and "redis_get env st k = Inr (Some s)"
    and "json_loads env s = Inl e"
  shows "cache_result env prefix ttl func args kwargs st
       = cache_result (env\<lparr>redis_get := \<lambda>st k. Inr None\<rparr>) prefix ttl func args kwargs st"
proof -
  let ?env' = "env\<lparr>redis_get := \<lambda>st k. Inr None\<rparr>"
  have "generate_cache_key ?env' prefix args kwargs = generate_cache_key env prefix args kwargs"
    by (simp add: generate_cache_key_def json_dumps_sort_keys_def split: sum.splits)
  with assms(2) have k': "generate_cache_key ?env' prefix args kwargs = Inr k"
    by simp
  have "cache_result ?env' prefix ttl func args kwargs st
       = (case func args kwargs of
            Inl e \<Rightarrow> \<lparr>returned = Inl e, store_after = st, invocations = 1, printed = []\<rparr>
          | Inr result \<Rightarrow>
              (case json_dumps ?env' result of
                 Inl e \<Rightarrow>
                   \<lparr>returned = Inr result, store_after = st, invocations = 1, printed = [e]\<rparr>
               | Inr s \<Rightarrow>
                   \<lparr>returned = Inr result, store_after = snd (redis_setex ?env' st k ttl s),
                    invocations = 1,
                    printed = (case fst (redis_setex ?env' st k ttl s) of
                                 None \<Rightarrow> [] | Some e \<Rightarrow> [e])\<rparr>))"
    using assms(1) k' by (intro cache_result_miss [where c = None]) simp_all
  moreover have "cache_result env prefix ttl func args kwargs st
       = (case func args kwargs of
            Inl e \<Rightarrow> \<lparr>returned = Inl e, store_after = st, invocations = 1, printed = []\<rparr>
          | Inr result \<Rightarrow>
              (case json_dumps env result of
                 Inl e \<Rightarrow>
                   \<lparr>returned = Inr result, store_after = st, invocations = 1, printed = [e]\<rparr>
               | Inr s \<Rightarrow>
                   \<lparr>returned = Inr result, store_after = snd (redis_setex env st k ttl s),
                    invocations = 1,
                    printed = (case fst (redis_setex env st k ttl s) of
                                 None \<Rightarrow> [] | Some e \<Rightarrow> [e])\<rparr>))"
    using assms by (intro cache_result_miss [where c = "Some s"]) simp_all
  ultimately show ?thesis by (simp split: sum.splits)
qed

text \<open>
  When the key derivation and \<open>get\<close> do not raise and the function returns \<open>r\<close> on a
  miss, the wrapper returns \<open>r\<close>, whatever \<open>json.dumps\<close> and \<open>setex\<close> do.
\<close>

lemma cache_result_store_failure_swallowed:
  assumes "REDIS_ENABLED env"
    and "generate_cache_key env prefix args kwargs = Inr k"
    and "redis_get env st k = Inr None"
    and "func args kwargs = Inr r"
  shows "returned (cache_result env prefix ttl func args kwargs st) = Inr r"
  using assms
  by (subst cache_result_miss [where k = k and c = None]) (simp_all split: sum.splits)

text \<open>
  C8. The sentence is right about the two guarded steps (the lemmas above), but its
  last part fails on the code: \<open>redis_client.get\<close> and \<open>generate_cache_key\<close> stand outside
  every \<open>try\<close>. With Redis enabled and the server unreachable, a call whose function
  would return 42 raises the connection error instead, and the function is never
  invoked; and a keyword argument that \<open>json.dumps\<close> cannot encode makes the key
  derivation raise \<open>TypeError\<close> although the store is reachable.
\<close>

theorem cache_result_lookup_failure_propagates:
  "cache_result unreachable_env (py ''summary'') 86400 (\<lambda>args kwargs. Inr (PInt 42))
     [PInt 7] [] []
     = \<lparr>returned = Inl ConnectionError, store_after = [], invocations = 0, printed = []\<rparr>
   \<and> cache_result mem_env (py ''summary'') 86400 (\<lambda>args kwargs. Inr (PInt 42))
       [] [(py ''doc'', PObject (py ''<Doc>''))] []
     = \<lparr>returned = Inl (PyError (py ''TypeError'') (py ''Object is not JSON serializable'')),
        store_after = [], invocations = 0, printed = []\<rparr>"
  by code_simp

section \<open>Properties of \<open>process_text\<close>\<close>

lemma process_chunks_calls:
  "set (snd (process_chunks nlp i chunks combined calls)) \<subseteq> set calls \<union> set chunks"
proof (induction chunks arbitrary: i combined calls)
  case Nil
  then show ?case by simp
next
  case (Cons c cs)
  show ?case
  proof (cases "nlp c")
    case (Inl e)
    then show ?thesis by auto
  next
    case (Inr d)
    from Cons.IH [of "Suc i" "if i = 0 then Some d else combined" "calls @ [c]"] Inr
    show ?thesis by auto
  qed
qed

lemma process_chunks_all_ok:
  assumes "\<forall>c \<in> set chunks. \<exists>d. nlp c = Inr d"
  shows "process_chunks nlp i chunks combined calls
       = (Inr (if i = 0 \<and> chunks \<noteq> [] then Some (projr (nlp (hd chunks))) else combined),
          calls @ chunks)"
  using assms
proof (induction chunks arbitrary: i combined calls)
  case Nil
  then show ?case by simp
next
  case (Cons c cs)
  then obtain d where d: "nlp c = Inr d" by auto
  from Cons.prems have "\<forall>c \<in> set cs. \<exists>d. nlp c = Inr d" by simp
  from Cons.IH [OF this] d show ?case by simp
qed

text \<open>
  The chunks of a text of \<open>n + 1\<close> newlines for the chunk size \<open>n\<close>: the last
  paragraph break inside the first window ends exactly at \<open>n\<close>.
\<close>

lemma rfind_replicate:
  assumes "2 \<le> m" and "m \<le> n"
  shows "rfind (replicate n c) [c, c] 0 (int m) = int (m - 2)"
proof -
  have i: "slice_index 0 (length (replicate n c)) = 0"
    by (simp add: slice_index_def)
  have j: "slice_index (int m) (length (replicate n c)) = m"
    using assms by (simp add: slice_index_def)
  have u: "Suc m - length [c, c] = Suc (m - 2)"
    using assms by simp
  have p: "take (length [c, c]) (drop (m - 2) (replicate n c)) = [c, c]"
  proof -
    from assms have "min 2 (n - (m - 2)) = 2" by simp
    then have "take 2 (drop (m - 2) (replicate n c)) = replicate 2 c"
      by simp
    then show ?thesis by (simp add: numeral_2_eq_2)
  qed
  show ?thesis
    unfolding rfind_def i j u Let_def
    using p by simp
qed

lemma chunk_text_newlines:
  assumes "3 \<le> n" and "m = n + 1"
  shows "chunk_text (replicate m 10) (int n) = Some [replicate n 10, [10]]"
proof -
  let ?t = "replicate m (10::nat)"
  have nm: "n < m" "m - n = 1" "min n m = n" "n \<le> m" "3 \<le> n"
    using assms by simp_all
  have r: "rfind ?t [10, 10] 0 (int n) = int (n - 2)"
    using nm by (intro rfind_replicate) simp_all
  have e1: "chunk_end_pos ?t (int n) 0 = int n"
    using nm r by (simp add: chunk_end_pos_def Let_def)
  have s1: "py_slice ?t 0 (int n) = replicate n 10"
    using nm by (simp add: py_slice_def slice_index_def Let_def)
  have e2: "chunk_end_pos ?t (int n) (int n) = int m"
    using nm by (simp add: chunk_end_pos_def Let_def)
  have "py_slice ?t (int n) (int m) = replicate 1 10"
    using nm by (simp add: py_slice_def slice_index_def Let_def)
  then have s2: "py_slice ?t (int n) (int m) = [10]" by simp
  have l3: "chunk_loop ?t (int n) (int m) [replicate n 10, [10]] = Some [replicate n 10, [10]]"
    by (subst chunk_loop.simps) simp
  have l2: "chunk_loop ?t (int n) (int n) [replicate n 10] = Some [replicate n 10, [10]]"
    using nm by (subst chunk_loop.simps) (simp add: e2 s2 l3)
  have l1: "chunk_loop ?t (int n) 0 [] = Some [replicate n 10, [10]]"
    using nm by (subst chunk_loop.simps) (simp add: e1 s1 l2)
  show ?thesis
    using nm by (simp add: chunk_text_def l1)
qed

text \<open>
  C9. For every text longer than 100,000 characters, \<open>process_text\<close> splits the text
  with \<open>chunk_text(text, 100000)\<close> into windows of at most 100,000 characters that
  concatenate to the text; every text the model is invoked on has at most 100,000
  characters, so the model is never invoked on the whole text; and when the model
  succeeds on every window and the document of the first window is not empty, the
  model is invoked on exactly the windows, in order, and the document returned is the
  one computed from the first window: the others are dropped.
\<close>

theorem process_text_windows:
  assumes "length text > 100000"
  shows "\<exists>chunks res calls.
           chunk_text text 100000 = Some chunks
         \<and> chunks \<noteq> []
         \<and> concat chunks = text
         \<and> (\<forall>c \<in> set chunks. length c \<le> 100000)
         \<and> process_text nlp doc_truthy text = Some (res, calls)
         \<and> (\<forall>c \<in> set calls. length c \<le> 100000)
         \<and> text \<notin> set calls
         \<and> ((\<forall>c \<in> set chunks. \<exists>d. nlp c = Inr d)
              \<and> (\<forall>d. nlp (hd chunks) = Inr d \<longrightarrow> doc_truthy d)
            \<longrightarrow> res = nlp (hd chunks) \<and> calls = chunks)"
proof -
  have one: "(1::int) \<le> 100000" by simp
  from chunk_text_returns [OF one, of "text"] obtain chunks
    where ch: "chunk_text text 100000 = Some chunks" and cat: "concat chunks = text"
      and bound: "\<forall>c \<in> set chunks. length c \<le> 100000"
    by (auto simp: list_all_iff)
  from assms cat have ne: "chunks \<noteq> []" by auto
  obtain r calls0 where pc: "process_chunks nlp 0 chunks None [] = (r, calls0)"
    by (cases "process_chunks nlp 0 chunks None []")
  have sub0: "set calls0 \<subseteq> set chunks"
    using process_chunks_calls [of nlp 0 chunks None "[]"] pc by simp
  from assms ch have "\<exists>p. process_text nlp doc_truthy text = Some p"
    by (simp add: process_text_def)
  then obtain res calls where pt: "process_text nlp doc_truthy text = Some (res, calls)"
    by force
  have sub: "set calls \<subseteq> set chunks \<union> {[]}"
    using pt assms ch pc sub0
    by (auto simp: process_text_def split: sum.splits option.splits if_splits)
  have cb: "\<forall>c \<in> set calls. length c \<le> 100000"
    using sub bound by auto
  have notin: "text \<notin> set calls"
    using cb assms by auto
  have ok: "res = nlp (hd chunks) \<and> calls = chunks"
    if all: "\<forall>c \<in> set chunks. \<exists>d. nlp c = Inr d"
      and tr: "\<forall>d. nlp (hd chunks) = Inr d \<longrightarrow> doc_truthy d"
  proof -
    from ne all obtain d where d: "nlp (hd chunks) = Inr d"
      by (cases chunks) auto
    from process_chunks_all_ok [OF all, of 0 None "[]"] ne d
    have "process_chunks nlp 0 chunks None [] = (Inr (Some d), chunks)" by simp
    with pt assms ch tr d show ?thesis
      by (simp add: process_text_def)
  qed
  from ch ne cat bound pt cb notin ok show ?thesis by blast
qed

text \<open>
  The witness: a text of 100,001 newlines, and a model whose document for a window is
  the number of its characters (a document is empty when that number is 0). The
  model is invoked on the windows of 100,000 and of 1 character, and the result is the
  document of the first.
\<close>

theorem process_text_windows_witness:
  "length (replicate 100001 (10::nat)) > 100000
   \<and> chunk_text (replicate 100001 10) 100000 = Some [replicate 100000 10, [10]]
   \<and> process_text (\<lambda>c. Inr (length c)) (\<lambda>d. 0 < d) (replicate 100001 10)
       = Some (Inr 100000, [replicate 100000 10, [10]])"
proof -
  have h: "length (replicate 100001 (10::nat)) > 100000" by simp
  have c: "chunk_text (replicate 100001 10) 100000 = Some [replicate 100000 10, [10]]"
    using chunk_text_newlines [of 100000 100001] by simp
  from process_text_windows [OF h, of "\<lambda>c. Inr (length c)" "\<lambda>d. 0 < d"]
  obtain chunks res calls where
    1: "chunk_text (replicate 100001 10) 100000 = Some chunks"
    and 2: "process_text (\<lambda>c. Inr (length c)) (\<lambda>d. 0 < d) (replicate 100001 10)
              = Some (res, calls)"
    and 3: "(\<forall>c \<in> set chunks. \<exists>d. (Inr (length c) :: exn + nat) = Inr d)
              \<and> (\<forall>d. (Inr (length (hd chunks)) :: exn + nat) = Inr d \<longrightarrow> 0 < d)
            \<longrightarrow> res = Inr (length (hd chunks)) \<and> calls = chunks"
    by blast
  from 1 c have ch: "chunks = [replicate 100000 10, [10]]" by simp
  with 3 have "res = Inr 100000" "calls = [replicate 100000 10, [10]]" by simp_all
  with h c 2 show ?thesis by simp
qed

section \<open>Properties of \<open>process_upload\<close>\<close>

text \<open>
  What the two decoding branches do with bytes that are not valid UTF-8: the \<open>else\<close>
  branch (\<open>DOCX\<close>, \<open>MARKDOWN\<close>) raises \<open>HTTPException(415)\<close> with the "unsupported or
  corrupt format" detail; the \<open>TEXT\<close> branch lets \<open>UnicodeDecodeError\<close> through.
\<close>

lemma process_upload_invalid_utf8:
  assumes "utf8_decode (content file) = None"
  shows "process_upload lower words process_pdf file perform_ocr =
     (case get_document_type (lower (splitext_ext (filename file))) of
        PDF \<Rightarrow>
          (case process_pdf (content file) perform_ocr of
             Inl e \<Rightarrow> Inl e
           | Inr (extracted_text, meta) \<Rightarrow>
               if \<not> fst (content_security_check lower words extracted_text)
               then Inl (HTTPException 400
                          (py ''Contenido inapropiado: ''
                           @ snd (content_security_check lower words extracted_text)))
               else Inl UnboundLocalError)
      | TEXT \<Rightarrow> Inl UnicodeDecodeError
      | DOCX \<Rightarrow> Inl (HTTPException 415 (py ''Formato de archivo no soportado o corrupto''))
      | MARKDOWN \<Rightarrow> Inl (HTTPException 415 (py ''Formato de archivo no soportado o corrupto'')))"
  using assms
  by (simp add: process_upload_def Let_def split: DocumentType.splits)

text \<open>\<open>process_upload\<close> never returns a document: every path ends in an exception.\<close>

lemma process_upload_raises:
  "\<exists>e. process_upload lower words process_pdf file perform_ocr = Inl e"
  by (auto simp: process_upload_def Let_def
           split: DocumentType.splits option.splits sum.splits prod.splits)

text \<open>
  C6. The sentence holds for the file types that take the \<open>else\<close> branch, and no
  document is produced in any case; but for the type \<open>TEXT\<close> itself the code raises the
  bare \<open>UnicodeDecodeError\<close>, not the "unsupported or corrupt format" signal. The file
  \<open>notes.txt\<close> with the single byte \<open>0xFF\<close> shows it; the same bytes uploaded as
  \<open>notes.md\<close> get the signal.
\<close>

theorem process_upload_text_decode_error:
  "utf8_decode [255] = None
   \<and> get_document_type (lower_ascii (splitext_ext (py ''notes.txt''))) = TEXT
   \<and> process_upload lower_ascii PROHIBITED_CONTENT (\<lambda>c ocr. Inl (HTTPException 400 []))
        \<lparr>filename = py ''notes.txt'', content = [255], content_type = py ''text/plain''\<rparr> True
       = Inl UnicodeDecodeError
   \<and> process_upload lower_ascii PROHIBITED_CONTENT (\<lambda>c ocr. Inl (HTTPException 400 []))
        \<lparr>filename = py ''notes.md'', content = [255], content_type = py ''text/markdown''\<rparr> True
       = Inl (HTTPException 415 (py ''Formato de archivo no soportado o corrupto''))
   \<and> UnicodeDecodeError \<noteq> HTTPException 415 (py ''Formato de archivo no soportado o corrupto'')"
  by code_simp

section \<open>Properties of \<open>create_visualization\<close> and \<open>create_summary\<close>\<close>

text \<open>
  The half of C7 that the handlers do check: a request with neither source raises
  the validation error \<open>HTTPException(400)\<close>.
\<close>

lemma create_visualization_no_source:
  assumes "document_id = None" and "\<not> truthy text"
  shows "create_visualization visualize document_id text viz_type
       = Inl (HTTPException 400 (py ''Se debe proporcionar texto o document_id''))"
  using assms
  by (auto simp: create_visualization_def truthy_def split: option.splits)

lemma create_summary_no_source:
  assumes "\<not> truthy document_id" and "\<not> truthy text"
  shows "create_summary env document_id text preprocess len include_keywords
       = Inl (HTTPException 400 (py ''Se debe proporcionar texto o document_id''))"
  using assms
  by (auto simp: create_summary_def summary_source_def truthy_def split: option.splits)

text \<open>
  The other half they do not check. With a document reference the outcome is the same
  whatever the raw text is, present or absent: the internal error
  \<open>HTTPException(500)\<close> that the missing \<open>get_document\<close> leads to.
\<close>

lemma create_visualization_reference:
  "create_visualization visualize (Some doc_ref) text viz_type
     = Inl (HTTPException 500
             (py ''Error al generar la visualizaci'' @ [243] @ py ''n: '' @ [39]
              @ py ''DocumentProcessor'' @ [39] @ py '' object has no attribute '' @ [39]
              @ py ''get_document'' @ [39]))"
  by (simp add: create_visualization_def AttributeError_def)

lemma create_summary_reference:
  assumes "truthy document_id"
  shows "create_summary env document_id text preprocess len include_keywords
       = Inl (HTTPException 500
               (py ''Error al generar el resumen: '' @ [39] @ py ''DocumentProcessor'' @ [39]
                @ py '' object has no attribute '' @ [39] @ py ''get_document'' @ [39]))"
  using assms
  by (simp add: create_summary_def summary_source_def AttributeError_def)

text \<open>\<open>create_summary\<close> never returns a response: every path ends in an \<open>HTTPException\<close>.\<close>

lemma create_summary_raises:
  "\<exists>code detail.
     create_summary env document_id text preprocess len include_keywords
       = Inl (HTTPException code detail)"
  by (cases "summary_source document_id text";
      auto simp: create_summary_def AttributeError_def split: exn.splits sum.splits)


end
